theory Spec2Isabelle
  imports Complex_Main
begin

section \<open>The wall state of Mutation++ (src/gsi/WallState.cpp)\<close>

text \<open>
  A shallow embedding of the class \<open>WallState\<close>. A C++ \<open>double\<close> is idealised as a
  \<open>real\<close>: the class copies values, and its only arithmetic is the product and quotient
  of \<open>initializeSurfState\<close> and the scaling by \<open>NA\<close> of \<open>getNdStateGasSurf\<close>.
  An \<open>Eigen::VectorXd\<close> and a caller's \<open>double*\<close> buffer are lists of reals. Sizes and
  loop counters that only count upwards from zero are naturals; \<open>state_var\<close> and the
  species count of a site category are integers, as in the source.
\<close>

subsection \<open>Errors and results\<close>

text \<open>
  \<open>InvalidInputError name value message\<close> is the exception of the two \<open>switch\<close>
  defaults. \<open>AssertionFailure\<close> stands for a failed \<open>assert\<close> or a failed index check
  of Eigen, \<open>OutOfBounds\<close> for an access behind the end of a caller's buffer.
  A result pairs the error, if any, with the state reached when the call ended.
\<close>

datatype error =
    InvalidInputError string int string
  | AssertionFailure
  | OutOfBounds

type_synonym 'a result = "error option \<times> 'a"

definition and_then :: "'a result \<Rightarrow> ('a \<Rightarrow> 'a result) \<Rightarrow> 'a result" where
  "and_then r f = (case r of (None, s) \<Rightarrow> f s | (Some e, s) \<Rightarrow> (Some e, s))"

subsection \<open>The two providers\<close>

text \<open>
  Modelled from the spec: \<open>Thermodynamics\<close> is not part of the sources at hand. The
  wall state uses its species count, its number of energy equations and its conversion
  of \<open>ns\<close> densities to \<open>ns\<close> concentrations; \<open>rho_to_conc a i\<close> is the concentration the
  conversion computes for species \<open>i\<close> from the densities \<open>a\<close>.
\<close>

record thermo =
  nSpecies :: nat
  nEnergyEqns :: nat
  rho_to_conc :: "real list \<Rightarrow> nat \<Rightarrow> real"

text \<open>
  Modelled from the spec: \<open>SurfaceProperties\<close> is not part of the sources at hand. The
  wall state uses the number of wall species, the number of site categories, the total
  site density and, for each category, its fraction and its number of species.
\<close>

record surf_props =
  nWallSpecies :: nat
  nSiteCategories :: nat
  nTotalSites :: real
  fracSite :: "nat \<Rightarrow> real"
  nSpeciesinSite :: "nat \<Rightarrow> int"

text \<open>
  Modelled from the spec: \<open>convert<RHO_TO_CONC>(a, b)\<close> of the thermodynamics provider
  reads \<open>ns\<close> densities at \<open>a\<close> and writes the \<open>ns\<close> concentrations to the first \<open>ns\<close>
  slots at \<open>b\<close>.
\<close>

definition convert_RHO_TO_CONC :: "thermo \<Rightarrow> real list \<Rightarrow> real list \<Rightarrow> real list result" where
  "convert_RHO_TO_CONC th a b =
     (if length a < nSpecies th \<or> length b < nSpecies th then (Some OutOfBounds, b)
      else (None, map (rho_to_conc th a) [0..<nSpecies th] @ drop (nSpecies th) b))"

subsection \<open>The class\<close>

record wall_state =
  m_thermo :: thermo
  m_surf_props :: surf_props
  m_ns :: nat
  m_nT :: nat
  m_ns_surf :: nat
  m_set_state_rhoi_T :: int
  mv_rhoi :: "real list"
  mv_T :: "real list"
  m_p :: real
  m_is_wall_state_set :: bool
  mv_surf_props_state :: "real list"

text \<open>
  The constructor of a sized \<open>Eigen::VectorXd\<close> allocates its coefficients and does not
  assign them, and \<open>m_p\<close> has no initialiser at all. What the fresh storage holds is
  therefore an argument of the model's constructor.
\<close>

record fresh_storage =
  fresh_rhoi :: "nat \<Rightarrow> real"
  fresh_T :: "nat \<Rightarrow> real"
  fresh_p :: real
  fresh_surf :: "nat \<Rightarrow> real"

definition VectorXd :: "(nat \<Rightarrow> real) \<Rightarrow> nat \<Rightarrow> real list" where
  "VectorXd mem n = map mem [0..<n]"

subsection \<open>initializeSurfState\<close>

text \<open>
  The inner loop stores \<open>n_sites_dens\<close> at \<open>pos_in_surf_props\<close> and advances the
  position, \<open>n_sp_in_site\<close> times; Eigen checks the index of each store.
\<close>

function site_loop :: "int \<Rightarrow> int \<Rightarrow> real \<Rightarrow> real list \<times> nat \<Rightarrow> (real list \<times> nat) result" where
  "site_loop i_sp_sites n_sp_in_site n_sites_dens (v, pos) =
     (if i_sp_sites < n_sp_in_site then
        (if pos < length v
         then site_loop (i_sp_sites + 1) n_sp_in_site n_sites_dens (v[pos := n_sites_dens], pos + 1)
         else (Some AssertionFailure, (v, pos)))
      else (None, (v, pos)))"
  by pat_completeness auto
termination
  by (relation "measure (\<lambda>(i, n, d, s). nat (n - i))") auto

text \<open>
  The outer loop visits the site categories in the provider's order. The quotient is a
  quotient of doubles in the source, where a zero divisor is no fault; with no species in
  the category the inner loop stores nothing, so the value is never used then.
\<close>

function sites_loop :: "surf_props \<Rightarrow> nat \<Rightarrow> real list \<times> nat \<Rightarrow> (real list \<times> nat) result" where
  "sites_loop sp i_sites s =
     (if i_sites < nSiteCategories sp then
        (let n_frac_site = fracSite sp i_sites;
             n_sp_in_site = nSpeciesinSite sp i_sites;
             n_sites_dens = nTotalSites sp * n_frac_site / real_of_int n_sp_in_site
         in case site_loop 0 n_sp_in_site n_sites_dens s of
              (Some e, s') \<Rightarrow> (Some e, s')
            | (None, s') \<Rightarrow> sites_loop sp (i_sites + 1) s')
      else (None, s))"
  by pat_completeness auto
termination
  by (relation "measure (\<lambda>(sp, i, s). nSiteCategories sp - i)") auto

definition initializeSurfState :: "wall_state \<Rightarrow> wall_state result" where
  "initializeSurfState w =
     (case sites_loop (m_surf_props w) 0 (mv_surf_props_state w, 0) of
        (r, (v, pos)) \<Rightarrow> (r, w\<lparr>mv_surf_props_state := v\<rparr>))"

subsection \<open>The constructor\<close>

definition WallState :: "thermo \<Rightarrow> surf_props \<Rightarrow> fresh_storage \<Rightarrow> wall_state result" where
  "WallState th sp mem =
     initializeSurfState
       \<lparr>m_thermo = th,
        m_surf_props = sp,
        m_ns = nSpecies th,
        m_nT = nEnergyEqns th,
        m_ns_surf = nWallSpecies sp,
        m_set_state_rhoi_T = 1,
        mv_rhoi = VectorXd (fresh_rhoi mem) (nSpecies th),
        mv_T = VectorXd (fresh_T mem) (nEnergyEqns th),
        m_p = fresh_p mem,
        m_is_wall_state_set = False,
        mv_surf_props_state = VectorXd (fresh_surf mem) (nWallSpecies sp)\<rparr>"

subsection \<open>The setters\<close>

text \<open>
  \<open>Eigen::Map<const Eigen::VectorXd>(p, n)\<close> reads the first \<open>n\<close> values at \<open>p\<close>; the
  assignment resizes the vector to \<open>n\<close>.
\<close>

definition setWallRhoi :: "real list \<Rightarrow> wall_state \<Rightarrow> wall_state result" where
  "setWallRhoi p_rhoi w =
     (if length p_rhoi < m_ns w then (Some OutOfBounds, w)
      else (None, w\<lparr>mv_rhoi := take (m_ns w) p_rhoi\<rparr>))"

definition setWallT :: "real list \<Rightarrow> wall_state \<Rightarrow> wall_state result" where
  "setWallT p_T w =
     (if length p_T < m_nT w then (Some OutOfBounds, w)
      else (None, w\<lparr>mv_T := take (m_nT w) p_T\<rparr>))"

definition setWallP :: "real \<Rightarrow> wall_state \<Rightarrow> wall_state result" where
  "setWallP p w = (None, w\<lparr>m_p := p\<rparr>)"

definition set_msg :: string where
  "set_msg =
     ''This variable-set is not implemented in setWallState''
     @ ''. Possible variable-sets are:'' @ [CHR 0x0A]
     @ ''  0: (pressure, temperature)'' @ [CHR 0x0A]
     @ ''  1: (species densities, temperature)'' @ [CHR 0x0A]"

definition setWallState :: "real list \<Rightarrow> real list \<Rightarrow> int \<Rightarrow> wall_state \<Rightarrow> wall_state result" where
  "setWallState p_mass p_energy state_var w =
     (if state_var = 0 then
        and_then
          (and_then
             (case p_mass of [] \<Rightarrow> (Some OutOfBounds, w) | p # _ \<Rightarrow> setWallP p w)
             (setWallT p_energy))
          (\<lambda>w'. (None, w'\<lparr>m_is_wall_state_set := True\<rparr>))
      else if state_var = 1 then
        and_then
          (and_then (setWallRhoi p_mass w) (setWallT p_energy))
          (\<lambda>w'. (None, w'\<lparr>m_is_wall_state_set := True\<rparr>))
      else (Some (InvalidInputError ''variable set'' state_var set_msg), w))"

subsection \<open>The getters\<close>

text \<open>
  Each loop of \<open>getWallState\<close> copies the coefficients \<open>0..n-1\<close> of a vector of the
  state to the caller's buffer; Eigen checks the index it reads.
\<close>

function get_loop :: "nat \<Rightarrow> nat \<Rightarrow> real list \<Rightarrow> real list \<Rightarrow> real list result" where
  "get_loop i n src p =
     (if i < n then
        (if length src \<le> i then (Some AssertionFailure, p)
         else if length p \<le> i then (Some OutOfBounds, p)
         else get_loop (i + 1) n src (p[i := src ! i]))
      else (None, p))"
  by pat_completeness auto
termination
  by (relation "measure (\<lambda>(i, n, src, p). n - i)") auto

definition get_msg :: string where
  "get_msg =
     ''This variable-get is not implemented in getWallState''
     @ ''. Possible variable-sets are:'' @ [CHR 0x0A]
     @ ''  1: (species densities, temperature)'' @ [CHR 0x0A]"

definition getWallState ::
    "real list \<Rightarrow> real list \<Rightarrow> int \<Rightarrow> wall_state \<Rightarrow> (real list \<times> real list) result" where
  "getWallState p_rhoi p_rhoie state_var w =
     (if state_var = 1 then
        (case get_loop 0 (m_ns w) (mv_rhoi w) p_rhoi of
           (Some e, p_rhoi') \<Rightarrow> (Some e, (p_rhoi', p_rhoie))
         | (None, p_rhoi') \<Rightarrow>
             (case get_loop 0 (m_nT w) (mv_T w) p_rhoie of
                (r, p_rhoie') \<Rightarrow> (r, (p_rhoi', p_rhoie'))))
      else (Some (InvalidInputError ''variable get'' state_var get_msg), (p_rhoi, p_rhoie)))"

text \<open>
  \<open>NA\<close> (Avogadro's number) is a constant of a header that is not at hand; it is the
  first argument. The method is \<open>const\<close>: it returns the buffer and leaves the state.
\<close>

definition getNdStateGasSurf :: "real \<Rightarrow> real list \<Rightarrow> wall_state \<Rightarrow> real list result" where
  "getNdStateGasSurf NA v_wall_state w =
     (if length v_wall_state \<noteq> m_ns w + m_ns_surf w then (Some AssertionFailure, v_wall_state)
      else
        and_then
          (and_then
             (convert_RHO_TO_CONC (m_thermo w) (mv_rhoi w) v_wall_state)
             (\<lambda>v. (None, map (\<lambda>x. x * NA) (take (m_ns w) v) @ drop (m_ns w) v)))
          (\<lambda>v. if length (mv_surf_props_state w) < m_ns_surf w then (Some AssertionFailure, v)
                else (None, take (length v - m_ns_surf w) v
                              @ take (m_ns_surf w) (mv_surf_props_state w))))"

subsection \<open>The operations of the class as a transition system\<close>

text \<open>
  A caller holds one \<open>WallState\<close> and calls its public methods in any order; a call that
  throws leaves the object as it was at the throw. The two getters are handed the
  caller's buffers and do not change the object.
\<close>

datatype op =
    SetWallState "real list" "real list" int
  | GetWallState "real list" "real list" int
  | SetWallRhoi "real list"
  | SetWallT "real list"
  | SetWallP real
  | GetNdStateGasSurf real "real list"

fun exec :: "op \<Rightarrow> wall_state \<Rightarrow> wall_state result" where
  "exec (SetWallState p_mass p_energy state_var) w = setWallState p_mass p_energy state_var w"
| "exec (GetWallState p_rhoi p_rhoie state_var) w = (fst (getWallState p_rhoi p_rhoie state_var w), w)"
| "exec (SetWallRhoi p_rhoi) w = setWallRhoi p_rhoi w"
| "exec (SetWallT p_T) w = setWallT p_T w"
| "exec (SetWallP p) w = setWallP p w"
| "exec (GetNdStateGasSurf NA v) w = (fst (getNdStateGasSurf NA v w), w)"

fun run :: "op list \<Rightarrow> wall_state \<Rightarrow> wall_state" where
  "run [] w = w"
| "run (x # xs) w = run xs (snd (exec x w))"

subsection \<open>The invariant of the data model\<close>

text \<open>
  The counts are those of the providers and the three vectors have the lengths the
  counts give.
\<close>

definition wall_inv :: "wall_state \<Rightarrow> bool" where
  "wall_inv w \<longleftrightarrow>
     m_ns w = nSpecies (m_thermo w) \<and>
     m_nT w = nEnergyEqns (m_thermo w) \<and>
     m_ns_surf w = nWallSpecies (m_surf_props w) \<and>
     length (mv_rhoi w) = m_ns w \<and>
     length (mv_T w) = m_nT w \<and>
     length (mv_surf_props_state w) = m_ns_surf w"

subsection \<open>The site densities as the specification words them\<close>

text \<open>
  Each of the \<open>m[c]\<close> species of category \<open>c\<close> gets \<open>T_total * frac[c] / m[c]\<close>; the
  categories follow each other in the provider's order, so category \<open>c\<close> starts at the
  slot that the species of the categories before it have used up.
\<close>

definition site_density :: "surf_props \<Rightarrow> nat \<Rightarrow> real" where
  "site_density sp c = nTotalSites sp * fracSite sp c / real_of_int (nSpeciesinSite sp c)"

definition site_offset :: "surf_props \<Rightarrow> nat \<Rightarrow> nat" where
  "site_offset sp c = sum_list (map (\<lambda>k. nat (nSpeciesinSite sp k)) [0..<c])"

definition site_densities :: "surf_props \<Rightarrow> real list" where
  "site_densities sp =
     concat (map (\<lambda>c. replicate (nat (nSpeciesinSite sp c)) (site_density sp c))
                 [0..<nSiteCategories sp])"

subsection \<open>A small wall\<close>

text \<open>
  Two gas species, one temperature and three surface species in two site categories:
  a quarter of the sites for the one species of the first category, three quarters for
  the two species of the second. The conversion of the provider is the identity, and the
  fresh storage holds values other than zero.
\<close>

definition ex_thermo :: thermo where
  "ex_thermo = \<lparr>nSpecies = 2, nEnergyEqns = 1, rho_to_conc = (\<lambda>a i. a ! i)\<rparr>"

definition ex_surf_props :: surf_props where
  "ex_surf_props =
     \<lparr>nWallSpecies = 3, nSiteCategories = 2, nTotalSites = 8,
      fracSite = (\<lambda>c. if c = 0 then 1 / 4 else 3 / 4),
      nSpeciesinSite = (\<lambda>c. if c = 0 then 1 else 2)\<rparr>"

definition ex_storage :: fresh_storage where
  "ex_storage =
     \<lparr>fresh_rhoi = (\<lambda>i. 5), fresh_T = (\<lambda>i. 7), fresh_p = 11, fresh_surf = (\<lambda>i. 13)\<rparr>"

definition ex_wall :: wall_state where
  "ex_wall = snd (WallState ex_thermo ex_surf_props ex_storage)"

text \<open>
  The small wall after its densities and temperature were set (variable set 1), and the
  same wall after a later call set pressure and temperature (variable set 0).
\<close>

definition ex_wall_rhoi :: wall_state where
  "ex_wall_rhoi = snd (setWallState [1, 2] [300] 1 ex_wall)"

definition ex_wall_p :: wall_state where
  "ex_wall_p = snd (setWallState [101325] [300] 0 ex_wall_rhoi)"

section \<open>Facts about the loops\<close>

declare get_loop.simps [simp del] site_loop.simps [simp del] sites_loop.simps [simp del]

subsection \<open>Sequencing\<close>

lemma and_then_None [simp]: "and_then (None, s) f = f s"
  by (simp add: and_then_def)

lemma and_then_Some [simp]: "and_then (Some e, s) f = (Some e, s)"
  by (simp add: and_then_def)

subsection \<open>The copy loop of the getter\<close>

lemma get_loop_copies:
  "i \<le> n \<Longrightarrow> n \<le> length src \<Longrightarrow> n \<le> length p \<Longrightarrow>
   get_loop i n src p = (None, take i p @ drop i (take n src) @ drop n p)"
proof (induction i n src p rule: get_loop.induct)
  case (1 i n src p)
  show ?case
  proof (cases "i < n")
    case True
    have upd: "take (Suc i) (p[i := src ! i]) = take i p @ [src ! i]"
      using True "1.prems" by (simp add: take_Suc_conv_app_nth)
    have src: "drop i (take n src) = src ! i # drop (Suc i) (take n src)"
    proof -
      have "i < length (take n src)" using True "1.prems" by simp
      from Cons_nth_drop_Suc [OF this] show ?thesis using True by simp
    qed
    have "get_loop i n src p = get_loop (i + 1) n src (p[i := src ! i])"
      using True "1.prems" by (subst get_loop.simps) simp
    also have "\<dots> = (None, take (i + 1) (p[i := src ! i]) @ drop (i + 1) (take n src)
                          @ drop n (p[i := src ! i]))"
      using True "1.prems" by (intro "1.IH") auto
    also have "\<dots> = (None, take i p @ drop i (take n src) @ drop n p)"
      using True upd src by simp
    finally show ?thesis .
  next
    case False
    with "1.prems" have "i = n" by simp
    then show ?thesis using "1.prems" by (subst get_loop.simps) simp
  qed
qed

subsection \<open>The two loops of the site initialisation\<close>

lemma site_loop_fills:
  "pos + nat (n - i) \<le> length v \<Longrightarrow>
   site_loop i n d (v, pos) =
     (None, (take pos v @ replicate (nat (n - i)) d @ drop (pos + nat (n - i)) v,
             pos + nat (n - i)))"
proof (induction "nat (n - i)" arbitrary: i v pos)
  case 0
  then have "\<not> i < n" by simp
  then show ?case using 0 by (subst site_loop.simps) simp
next
  case (Suc k)
  then have lt: "i < n" and k: "k = nat (n - (i + 1))" and pos: "pos < length v"
    by simp_all
  have fit: "(pos + 1) + nat (n - (i + 1)) \<le> length (v[pos := d])"
    using Suc.prems Suc.hyps(2) k by simp
  have "site_loop i n d (v, pos) = site_loop (i + 1) n d (v[pos := d], pos + 1)"
    using lt pos by (subst site_loop.simps) simp
  also have "\<dots> = (None, (take (pos + 1) (v[pos := d]) @ replicate k d
                             @ drop (pos + 1 + k) (v[pos := d]), pos + 1 + k))"
    using Suc.hyps(1) [OF k fit] k by simp
  also have "take (pos + 1) (v[pos := d]) = take pos v @ [d]"
    using pos by (simp add: take_Suc_conv_app_nth)
  finally show ?case
    using Suc.hyps(2) [symmetric] by (simp add: replicate_app_Cons_same)
qed

lemma site_loop_length:
  "site_loop i n d (v, pos) = (r, (v', pos')) \<Longrightarrow> length v' = length v"
proof (induction "nat (n - i)" arbitrary: i v pos)
  case 0
  then have "\<not> i < n" by simp
  then show ?case using 0 by (subst (asm) site_loop.simps) simp
next
  case (Suc k)
  then have lt: "i < n" and k: "k = nat (n - (i + 1))" by simp_all
  show ?case
  proof (cases "pos < length v")
    case True
    then have "site_loop (i + 1) n d (v[pos := d], pos + 1) = (r, (v', pos'))"
      using Suc.prems lt by (subst (asm) site_loop.simps) simp
    from Suc.hyps(1) [OF k this] show ?thesis by simp
  next
    case False
    then show ?thesis using Suc.prems lt by (subst (asm) site_loop.simps) simp
  qed
qed

lemma sites_loop_length:
  "sites_loop sp i (v, pos) = (r, (v', pos')) \<Longrightarrow> length v' = length v"
proof (induction "nSiteCategories sp - i" arbitrary: i v pos)
  case 0
  then show ?case by (subst (asm) sites_loop.simps) simp
next
  case (Suc k)
  then have lt: "i < nSiteCategories sp" and k: "k = nSiteCategories sp - (i + 1)" by simp_all
  obtain r1 v1 pos1 where sl: "site_loop 0 (nSpeciesinSite sp i)
      (nTotalSites sp * fracSite sp i / real_of_int (nSpeciesinSite sp i)) (v, pos) = (r1, (v1, pos1))"
    by (metis surj_pair)
  have l1: "length v1 = length v" using site_loop_length [OF sl] .
  show ?case
  proof (cases r1)
    case None
    then have "sites_loop sp (i + 1) (v1, pos1) = (r, (v', pos'))"
      using Suc.prems lt sl by (subst (asm) sites_loop.simps) simp
    from Suc.hyps(1) [OF k this] l1 show ?thesis by simp
  next
    case (Some e)
    then show ?thesis using Suc.prems lt sl l1 by (subst (asm) sites_loop.simps) simp
  qed
qed

lemma sites_loop_fills:
  "pos + sum_list (map (\<lambda>k. nat (nSpeciesinSite sp k)) [i..<nSiteCategories sp]) \<le> length v \<Longrightarrow>
   sites_loop sp i (v, pos) =
     (None,
      (take pos v
       @ concat (map (\<lambda>c. replicate (nat (nSpeciesinSite sp c)) (site_density sp c))
                     [i..<nSiteCategories sp])
       @ drop (pos + sum_list (map (\<lambda>k. nat (nSpeciesinSite sp k)) [i..<nSiteCategories sp])) v,
       pos + sum_list (map (\<lambda>k. nat (nSpeciesinSite sp k)) [i..<nSiteCategories sp])))"
proof (induction "nSiteCategories sp - i" arbitrary: i v pos)
  case 0
  then show ?case by (subst sites_loop.simps) simp
next
  case (Suc k)
  then have lt: "i < nSiteCategories sp" and k: "k = nSiteCategories sp - Suc i" by simp_all
  define m where "m = nat (nSpeciesinSite sp i)"
  define R where "R = sum_list (map (\<lambda>k. nat (nSpeciesinSite sp k)) [Suc i..<nSiteCategories sp])"
  define d where "d = site_density sp i"
  define rest where "rest = concat (map (\<lambda>c. replicate (nat (nSpeciesinSite sp c)) (site_density sp c))
                     [Suc i..<nSiteCategories sp])"
  define v1 where "v1 = take pos v @ replicate m d @ drop (pos + m) v"
  have upt: "[i..<nSiteCategories sp] = i # [Suc i..<nSiteCategories sp]"
    using lt by (simp add: upt_conv_Cons)
  have total: "sum_list (map (\<lambda>k. nat (nSpeciesinSite sp k)) [i..<nSiteCategories sp]) = m + R"
    by (simp add: upt m_def R_def)
  have cc: "concat (map (\<lambda>c. replicate (nat (nSpeciesinSite sp c)) (site_density sp c))
                     [i..<nSiteCategories sp]) = replicate m d @ rest"
    by (simp add: upt m_def d_def rest_def)
  have fit: "pos + m + R \<le> length v"
    using Suc.prems by (simp add: total)
  have inner: "site_loop 0 (nSpeciesinSite sp i) d (v, pos) = (None, (v1, pos + m))"
    using site_loop_fills [of pos "nSpeciesinSite sp i" 0 v d] fit
    by (simp add: m_def v1_def)
  have len1: "length v1 = length v"
    using fit by (simp add: v1_def)
  have tk: "take (pos + m) v1 = take pos v @ replicate m d"
    using fit by (simp add: v1_def)
  have dr: "drop (pos + m + R) v1 = drop (pos + m + R) v"
    using fit by (simp add: v1_def add.commute)
  have "sites_loop sp i (v, pos) = sites_loop sp (Suc i) (v1, pos + m)"
    using lt inner by (subst sites_loop.simps) (simp add: site_density_def d_def)
  also have "\<dots> = (None, (take (pos + m) v1 @ rest @ drop (pos + m + R) v1, pos + m + R))"
    using Suc.hyps(1) [OF k, of "pos + m" v1] fit len1 by (simp add: R_def rest_def)
  also have "\<dots> = (None, (take pos v @ (replicate m d @ rest) @ drop (pos + (m + R)) v,
                          pos + (m + R)))"
    using tk dr by (simp add: add.assoc)
  finally show ?case
    unfolding total cc .
qed

lemma initializeSurfState_fills:
  assumes "site_offset (m_surf_props w) (nSiteCategories (m_surf_props w))
             \<le> length (mv_surf_props_state w)"
  shows "initializeSurfState w =
           (None, w\<lparr>mv_surf_props_state :=
                      site_densities (m_surf_props w)
                      @ drop (site_offset (m_surf_props w) (nSiteCategories (m_surf_props w)))
                          (mv_surf_props_state w)\<rparr>)"
  using sites_loop_fills [of 0 "m_surf_props w" 0 "mv_surf_props_state w"] assms
  by (simp add: initializeSurfState_def site_offset_def site_densities_def)

lemma length_site_densities:
  "length (site_densities sp) = site_offset sp (nSiteCategories sp)"
  by (simp add: site_densities_def site_offset_def length_concat comp_def)

lemma WallState_fills:
  assumes "site_offset sp (nSiteCategories sp) \<le> nWallSpecies sp"
  shows "WallState th sp mem =
     (None, \<lparr>m_thermo = th, m_surf_props = sp, m_ns = nSpecies th, m_nT = nEnergyEqns th,
             m_ns_surf = nWallSpecies sp, m_set_state_rhoi_T = 1,
             mv_rhoi = VectorXd (fresh_rhoi mem) (nSpecies th),
             mv_T = VectorXd (fresh_T mem) (nEnergyEqns th),
             m_p = fresh_p mem, m_is_wall_state_set = False,
             mv_surf_props_state =
               site_densities sp
               @ drop (site_offset sp (nSiteCategories sp))
                   (VectorXd (fresh_surf mem) (nWallSpecies sp))\<rparr>)"
  unfolding WallState_def
  by (subst initializeSurfState_fills) (use assms in \<open>simp_all add: VectorXd_def\<close>)

lemma initializeSurfState_snd:
  "\<exists>v. snd (initializeSurfState w) = w\<lparr>mv_surf_props_state := v\<rparr> \<and>
       length v = length (mv_surf_props_state w)"
proof -
  obtain r v pos where sl: "sites_loop (m_surf_props w) 0 (mv_surf_props_state w, 0) = (r, (v, pos))"
    by (metis surj_pair)
  from sites_loop_length [OF sl] sl show ?thesis
    by (intro exI [of _ v]) (simp add: initializeSurfState_def)
qed

lemma WallState_snd:
  "\<exists>v. snd (WallState th sp mem) =
         \<lparr>m_thermo = th, m_surf_props = sp, m_ns = nSpecies th, m_nT = nEnergyEqns th,
          m_ns_surf = nWallSpecies sp, m_set_state_rhoi_T = 1,
          mv_rhoi = VectorXd (fresh_rhoi mem) (nSpecies th),
          mv_T = VectorXd (fresh_T mem) (nEnergyEqns th),
          m_p = fresh_p mem, m_is_wall_state_set = False,
          mv_surf_props_state = v\<rparr> \<and>
       length v = nWallSpecies sp"
  unfolding WallState_def
  using initializeSurfState_snd [of "\<lparr>m_thermo = th, m_surf_props = sp, m_ns = nSpecies th,
          m_nT = nEnergyEqns th, m_ns_surf = nWallSpecies sp, m_set_state_rhoi_T = 1,
          mv_rhoi = VectorXd (fresh_rhoi mem) (nSpecies th),
          mv_T = VectorXd (fresh_T mem) (nEnergyEqns th),
          m_p = fresh_p mem, m_is_wall_state_set = False,
          mv_surf_props_state = VectorXd (fresh_surf mem) (nWallSpecies sp)\<rparr>"]
  by (simp add: VectorXd_def)

subsection \<open>Sums and positions in the list of site densities\<close>

lemma offset_mono:
  fixes k :: "nat \<Rightarrow> nat"
  shows "c < C \<Longrightarrow> j < k c \<Longrightarrow> sum_list (map k [0..<c]) + j < sum_list (map k [0..<C])"
proof (induction C)
  case 0
  then show ?case by simp
next
  case (Suc C)
  show ?case
  proof (cases "c = C")
    case True
    then show ?thesis using Suc.prems by simp
  next
    case False
    then have "c < C" using Suc.prems by simp
    from Suc.IH [OF this Suc.prems(2)] show ?thesis by simp
  qed
qed

lemma sum_list_concat_replicate:
  fixes f :: "nat \<Rightarrow> real"
  shows "sum_list (concat (map (\<lambda>c. replicate (k c) (f c)) cs))
           = sum_list (map (\<lambda>c. of_nat (k c) * f c) cs)"
  by (induction cs) (simp_all add: sum_list_replicate)

lemma concat_replicate_nth:
  "c < C \<Longrightarrow> j < k c \<Longrightarrow>
   concat (map (\<lambda>c. replicate (k c) (f c)) [0..<C]) ! (sum_list (map k [0..<c]) + j) = f c"
proof (induction C)
  case 0
  then show ?case by simp
next
  case (Suc C)
  have len: "length (concat (map (\<lambda>c. replicate (k c) (f c)) [0..<C])) = sum_list (map k [0..<C])"
    by (simp add: length_concat comp_def)
  show ?case
  proof (cases "c = C")
    case True
    then show ?thesis using Suc.prems len by (simp add: nth_append)
  next
    case False
    then have c: "c < C" using Suc.prems by simp
    from offset_mono [of c C j k] c Suc.prems(2) Suc.IH [OF c Suc.prems(2)] len
    show ?thesis by (simp add: nth_append)
  qed
qed

lemma site_densities_nth:
  "c < nSiteCategories sp \<Longrightarrow> j < nat (nSpeciesinSite sp c) \<Longrightarrow>
   site_densities sp ! (site_offset sp c + j) = site_density sp c"
  unfolding site_densities_def site_offset_def
  by (rule concat_replicate_nth [where k = "\<lambda>c. nat (nSpeciesinSite sp c)"])

lemma site_offset_in_range:
  "c < nSiteCategories sp \<Longrightarrow> j < nat (nSpeciesinSite sp c) \<Longrightarrow>
   site_offset sp c + j < site_offset sp (nSiteCategories sp)"
  unfolding site_offset_def
  by (rule offset_mono [where k = "\<lambda>c. nat (nSpeciesinSite sp c)"])

lemma sum_list_site_densities:
  assumes "\<forall>c<nSiteCategories sp. 0 < nSpeciesinSite sp c"
  shows "sum_list (site_densities sp)
           = nTotalSites sp * sum_list (map (fracSite sp) [0..<nSiteCategories sp])"
proof -
  have "sum_list (site_densities sp)
          = sum_list (map (\<lambda>c. of_nat (nat (nSpeciesinSite sp c)) * site_density sp c)
                        [0..<nSiteCategories sp])"
    by (simp add: site_densities_def sum_list_concat_replicate)
  also have "\<dots> = sum_list (map (\<lambda>c. nTotalSites sp * fracSite sp c) [0..<nSiteCategories sp])"
  proof (rule arg_cong [where f = sum_list], rule map_cong [OF refl])
    fix c assume "c \<in> set [0..<nSiteCategories sp]"
    then have "0 < nSpeciesinSite sp c" using assms by simp
    then show "of_nat (nat (nSpeciesinSite sp c)) * site_density sp c
                 = nTotalSites sp * fracSite sp c"
      by (simp add: site_density_def)
  qed
  also have "\<dots> = nTotalSites sp * sum_list (map (fracSite sp) [0..<nSiteCategories sp])"
    by (simp add: sum_list_const_mult)
  finally show ?thesis .
qed

subsection \<open>What a call keeps\<close>

lemma setWallState_fields:
  "setWallState p_mass p_energy state_var w = (r, w') \<Longrightarrow>
   m_thermo w' = m_thermo w \<and> m_surf_props w' = m_surf_props w \<and> m_ns w' = m_ns w \<and>
   m_nT w' = m_nT w \<and> m_ns_surf w' = m_ns_surf w \<and>
   mv_surf_props_state w' = mv_surf_props_state w \<and>
   (length (mv_rhoi w) = m_ns w \<longrightarrow> length (mv_rhoi w') = m_ns w) \<and>
   (length (mv_T w) = m_nT w \<longrightarrow> length (mv_T w') = m_nT w) \<and>
   (m_is_wall_state_set w \<longrightarrow> m_is_wall_state_set w') \<and>
   (r = None \<longrightarrow> m_is_wall_state_set w')"
  by (auto simp: setWallState_def setWallRhoi_def setWallT_def setWallP_def and_then_def
        split: if_splits list.splits)

lemma exec_keeps_flag:
  "m_is_wall_state_set w \<Longrightarrow> m_is_wall_state_set (snd (exec x w))"
proof (cases x)
  case (SetWallState p_mass p_energy state_var)
  then show "m_is_wall_state_set w \<Longrightarrow> ?thesis"
    using setWallState_fields [of p_mass p_energy state_var w] by (metis exec.simps(1) prod.collapse)
qed (simp_all add: setWallRhoi_def setWallT_def setWallP_def)

lemma run_keeps_flag:
  "m_is_wall_state_set w \<Longrightarrow> m_is_wall_state_set (run xs w)"
  by (induction xs arbitrary: w) (simp_all add: exec_keeps_flag)

lemma run_append: "run (xs @ ys) w = run ys (run xs w)"
  by (induction xs arbitrary: w) simp_all

lemma wall_inv_exec: "wall_inv w \<Longrightarrow> wall_inv (snd (exec x w))"
proof (cases x)
  case (SetWallState p_mass p_energy state_var)
  then show "wall_inv w \<Longrightarrow> ?thesis"
    using setWallState_fields [of p_mass p_energy state_var w "fst (setWallState p_mass p_energy state_var w)"
        "snd (setWallState p_mass p_energy state_var w)"]
    by (simp add: wall_inv_def)
qed (simp_all add: wall_inv_def setWallRhoi_def setWallT_def setWallP_def)

lemma wall_inv_run: "wall_inv w \<Longrightarrow> wall_inv (run xs w)"
  by (induction xs arbitrary: w) (simp_all add: wall_inv_exec)

lemma wall_inv_WallState: "wall_inv (snd (WallState th sp mem))"
  using WallState_snd [of th sp mem] by (auto simp: wall_inv_def VectorXd_def)

subsection \<open>The small wall, evaluated\<close>

lemma ex_WallState:
  "WallState ex_thermo ex_surf_props ex_storage =
     (None, \<lparr>m_thermo = ex_thermo, m_surf_props = ex_surf_props, m_ns = 2, m_nT = 1,
             m_ns_surf = 3, m_set_state_rhoi_T = 1, mv_rhoi = [5, 5], mv_T = [7], m_p = 11,
             m_is_wall_state_set = False, mv_surf_props_state = [2, 3, 3]\<rparr>)"
  by (simp add: WallState_def initializeSurfState_def ex_thermo_def ex_surf_props_def
        ex_storage_def VectorXd_def upt_rec sites_loop.simps site_loop.simps)

lemma ex_wall_eq:
  "ex_wall = \<lparr>m_thermo = ex_thermo, m_surf_props = ex_surf_props, m_ns = 2, m_nT = 1,
             m_ns_surf = 3, m_set_state_rhoi_T = 1, mv_rhoi = [5, 5], mv_T = [7], m_p = 11,
             m_is_wall_state_set = False, mv_surf_props_state = [2, 3, 3]\<rparr>"
  by (simp add: ex_wall_def ex_WallState)

lemma ex_wall_rhoi_eq:
  "ex_wall_rhoi = \<lparr>m_thermo = ex_thermo, m_surf_props = ex_surf_props, m_ns = 2, m_nT = 1,
             m_ns_surf = 3, m_set_state_rhoi_T = 1, mv_rhoi = [1, 2], mv_T = [300], m_p = 11,
             m_is_wall_state_set = True, mv_surf_props_state = [2, 3, 3]\<rparr>"
  by (simp add: ex_wall_rhoi_def ex_wall_eq setWallState_def setWallRhoi_def setWallT_def)

lemma ex_wall_p_eq:
  "ex_wall_p = \<lparr>m_thermo = ex_thermo, m_surf_props = ex_surf_props, m_ns = 2, m_nT = 1,
             m_ns_surf = 3, m_set_state_rhoi_T = 1, mv_rhoi = [1, 2], mv_T = [300], m_p = 101325,
             m_is_wall_state_set = True, mv_surf_props_state = [2, 3, 3]\<rparr>"
  by (simp add: ex_wall_p_def ex_wall_rhoi_eq setWallState_def setWallP_def setWallT_def)

lemma ex_site_offset: "site_offset ex_surf_props (nSiteCategories ex_surf_props) = 3"
  "site_offset ex_surf_props 0 = 0" "site_offset ex_surf_props (Suc 0) = 1"
  by (simp_all add: site_offset_def ex_surf_props_def upt_rec)

lemma ex_site_densities: "site_densities ex_surf_props = [2, 3, 3]"
  by (simp add: site_densities_def site_density_def ex_surf_props_def upt_rec
        numeral_2_eq_2)


section \<open>The claims\<close>

subsection \<open>Construction\<close>

text \<open>
  C7, as the code has it: the constructor takes \<open>m_ns\<close>, \<open>m_nT\<close> and \<open>m_ns_surf\<close> from
  the two providers, gives \<open>mv_rhoi\<close> the length \<open>m_ns\<close> and \<open>mv_T\<close> the length \<open>m_nT\<close>
  without assigning their coefficients (they are what the fresh storage holds), leaves
  \<open>m_is_wall_state_set\<close> false, gives \<open>mv_surf_props_state\<close> the length \<open>m_ns_surf\<close> and,
  when the species of the site categories fit into it, succeeds and stores the site
  densities at its front.
\<close>

theorem WallState_construction:
  assumes "WallState th sp mem = (r, w)"
  shows "m_ns w = nSpecies th \<and> m_nT w = nEnergyEqns th \<and> m_ns_surf w = nWallSpecies sp \<and>
         length (mv_rhoi w) = nSpecies th \<and> length (mv_T w) = nEnergyEqns th \<and>
         (\<forall>i<nSpecies th. mv_rhoi w ! i = fresh_rhoi mem i) \<and>
         (\<forall>i<nEnergyEqns th. mv_T w ! i = fresh_T mem i) \<and>
         \<not> m_is_wall_state_set w \<and>
         length (mv_surf_props_state w) = nWallSpecies sp \<and>
         (site_offset sp (nSiteCategories sp) \<le> nWallSpecies sp \<longrightarrow>
            r = None \<and>
            take (site_offset sp (nSiteCategories sp)) (mv_surf_props_state w) = site_densities sp)"
proof -
  from WallState_snd [of th sp mem] assms
  have basic: "m_ns w = nSpecies th \<and> m_nT w = nEnergyEqns th \<and> m_ns_surf w = nWallSpecies sp \<and>
         length (mv_rhoi w) = nSpecies th \<and> length (mv_T w) = nEnergyEqns th \<and>
         (\<forall>i<nSpecies th. mv_rhoi w ! i = fresh_rhoi mem i) \<and>
         (\<forall>i<nEnergyEqns th. mv_T w ! i = fresh_T mem i) \<and>
         \<not> m_is_wall_state_set w \<and>
         length (mv_surf_props_state w) = nWallSpecies sp"
    by (auto simp: VectorXd_def)
  have "r = None \<and>
        take (site_offset sp (nSiteCategories sp)) (mv_surf_props_state w) = site_densities sp"
    if fit: "site_offset sp (nSiteCategories sp) \<le> nWallSpecies sp"
    using assms unfolding WallState_fills [OF fit]
    by (auto simp: length_site_densities)
  with basic show ?thesis by blast
qed

theorem WallState_construction_witness:
  "WallState ex_thermo ex_surf_props ex_storage = (None, ex_wall) \<and>
   m_ns ex_wall = 2 \<and> m_nT ex_wall = 1 \<and> m_ns_surf ex_wall = 3 \<and>
   length (mv_rhoi ex_wall) = 2 \<and> length (mv_T ex_wall) = 1 \<and>
   mv_rhoi ex_wall ! 0 = 5 \<and> mv_rhoi ex_wall ! 1 = 5 \<and> mv_T ex_wall ! 0 = 7 \<and>
   \<not> m_is_wall_state_set ex_wall \<and>
   site_offset ex_surf_props (nSiteCategories ex_surf_props) \<le> nWallSpecies ex_surf_props \<and>
   take 3 (mv_surf_props_state ex_wall) = [2, 3, 3]"
proof -
  have c: "WallState ex_thermo ex_surf_props ex_storage = (None, ex_wall)"
    by (simp add: ex_WallState ex_wall_eq)
  have fit: "site_offset ex_surf_props (nSiteCategories ex_surf_props) \<le> nWallSpecies ex_surf_props"
    by (simp add: ex_site_offset) (simp add: ex_surf_props_def)
  have n: "nSpecies ex_thermo = 2" "nEnergyEqns ex_thermo = 1" "nWallSpecies ex_surf_props = 3"
    by (simp_all add: ex_thermo_def ex_surf_props_def)
  note t = WallState_construction [OF c, unfolded n ex_site_offset ex_site_densities]
  have r0: "mv_rhoi ex_wall ! 0 = 5" and r1: "mv_rhoi ex_wall ! 1 = 5"
    and t0: "mv_T ex_wall ! 0 = 7"
    using t by (simp_all add: ex_storage_def)
  from t c fit r0 r1 t0 show ?thesis
    by simp
qed

text \<open>
  C7 as stated says that every entry of \<open>mv_rhoi\<close> and \<open>mv_T\<close> is zero after
  construction. On the small wall, whose fresh storage holds 5 and 7, the first entries
  are not zero.
\<close>

theorem WallState_storage_not_zeroed:
  "mv_rhoi (snd (WallState ex_thermo ex_surf_props ex_storage)) ! 0 \<noteq> 0 \<and>
   mv_T (snd (WallState ex_thermo ex_surf_props ex_storage)) ! 0 \<noteq> 0"
  by (simp add: ex_WallState)

subsection \<open>Unsupported variable sets\<close>

text \<open>
  C5: for every \<open>state_var\<close> other than 0 and 1, \<open>setWallState\<close> throws the
  \<open>InvalidInputError\<close> for "variable set" that carries the offending id and whose message
  lists the two valid ids, and the object after the throw is the object before the call:
  no field of it has changed.
\<close>

theorem setWallState_rejects_other_ids:
  "state_var \<noteq> 0 \<Longrightarrow> state_var \<noteq> 1 \<Longrightarrow>
   setWallState p_mass p_energy state_var w =
     (Some (InvalidInputError ''variable set'' state_var
        (''This variable-set is not implemented in setWallState. Possible variable-sets are:''
         @ [CHR 0x0A] @ ''  0: (pressure, temperature)''
         @ [CHR 0x0A] @ ''  1: (species densities, temperature)'' @ [CHR 0x0A])), w)"
  by (simp add: setWallState_def set_msg_def)

theorem setWallState_rejects_other_ids_witness:
  "(2::int) \<noteq> 0 \<and> (2::int) \<noteq> 1 \<and>
   setWallState [1, 2] [300] 2 ex_wall =
     (Some (InvalidInputError ''variable set'' 2
        (''This variable-set is not implemented in setWallState. Possible variable-sets are:''
         @ [CHR 0x0A] @ ''  0: (pressure, temperature)''
         @ [CHR 0x0A] @ ''  1: (species densities, temperature)'' @ [CHR 0x0A])), ex_wall)"
  using setWallState_rejects_other_ids [of 2 "[1, 2]" "[300]" ex_wall] by simp

text \<open>
  C6: for every \<open>state_var\<close> other than 1, \<open>getWallState\<close> throws the
  \<open>InvalidInputError\<close> for "variable get" that carries the offending id and whose message
  names the one valid id, and both buffers of the caller are as they were.
\<close>

theorem getWallState_rejects_other_ids:
  "state_var \<noteq> 1 \<Longrightarrow>
   getWallState p_rhoi p_rhoie state_var w =
     (Some (InvalidInputError ''variable get'' state_var
        (''This variable-get is not implemented in getWallState. Possible variable-sets are:''
         @ [CHR 0x0A] @ ''  1: (species densities, temperature)'' @ [CHR 0x0A])),
      (p_rhoi, p_rhoie))"
  by (simp add: getWallState_def get_msg_def)

theorem getWallState_rejects_other_ids_witness:
  "(0::int) \<noteq> 1 \<and>
   getWallState [0, 0] [0] 0 ex_wall =
     (Some (InvalidInputError ''variable get'' 0
        (''This variable-get is not implemented in getWallState. Possible variable-sets are:''
         @ [CHR 0x0A] @ ''  1: (species densities, temperature)'' @ [CHR 0x0A])),
      ([0, 0], [0]))"
  using getWallState_rejects_other_ids [of 0 "[0, 0]" "[0]" ex_wall] by simp

subsection \<open>Setting and reading back\<close>

text \<open>
  C2: for densities of length \<open>m_ns\<close> and temperatures of length \<open>m_nT\<close>,
  \<open>setWallState\<close> with variable set 1 succeeds, and \<open>getWallState\<close> with variable set 1
  on the state it leaves (into buffers with room for \<open>m_ns\<close> and \<open>m_nT\<close> values) succeeds
  and writes exactly those densities and temperatures, index for index, to the front of
  the two buffers; what lies behind them in the buffers is not touched.
\<close>

theorem set_then_get_roundtrip:
  assumes "length densities = m_ns w" and "length temperatures = m_nT w"
    and "m_ns w \<le> length p_rhoi" and "m_nT w \<le> length p_rhoie"
  shows "\<exists>w'. setWallState densities temperatures 1 w = (None, w') \<and>
           getWallState p_rhoi p_rhoie 1 w' =
             (None, (densities @ drop (m_ns w) p_rhoi, temperatures @ drop (m_nT w) p_rhoie))"
  using assms
  by (simp add: setWallState_def setWallRhoi_def setWallT_def getWallState_def get_loop_copies)

theorem set_then_get_roundtrip_witness:
  "length [1, 2 :: real] = m_ns ex_wall \<and> length [300 :: real] = m_nT ex_wall \<and>
   m_ns ex_wall \<le> length [0, 0, 0 :: real] \<and> m_nT ex_wall \<le> length [0, 0 :: real] \<and>
   (\<exists>w'. setWallState [1, 2] [300] 1 ex_wall = (None, w') \<and>
      getWallState [0, 0, 0] [0, 0] 1 w' = (None, ([1, 2, 0], [300, 0])))"
proof -
  have ns: "m_ns ex_wall = 2" and nT: "m_nT ex_wall = 1"
    by (simp_all add: ex_wall_def WallState_def initializeSurfState_def ex_thermo_def
          split: prod.splits)
  show ?thesis
    using set_then_get_roundtrip [of "[1, 2]" ex_wall "[300]" "[0, 0, 0]" "[0, 0]"]
    by (simp add: ns nT)
qed

subsection \<open>What setWallState writes\<close>

text \<open>
  C9: with variable set 0, a mass buffer that starts with \<open>p\<close> and an energy buffer of
  length \<open>m_nT\<close>, \<open>setWallState\<close> returns the state in which \<open>m_p\<close> is \<open>p\<close>, \<open>mv_T\<close> is
  the energy buffer and the flag is set, every other field, \<open>mv_rhoi\<close> among them, being as
  before. With variable set 1, a mass buffer of length \<open>m_ns\<close> and an energy buffer of
  length \<open>m_nT\<close>, it returns the state in which \<open>mv_rhoi\<close> is the mass buffer, \<open>mv_T\<close> is
  the energy buffer and the flag is set, every other field, \<open>m_p\<close> among them, being as
  before. Whatever the arguments and the outcome, \<open>mv_surf_props_state\<close> is as before.
\<close>

theorem setWallState_frame:
  "(length p_energy = m_nT w \<longrightarrow>
      setWallState (p # ps) p_energy 0 w =
        (None, w\<lparr>m_p := p, mv_T := p_energy, m_is_wall_state_set := True\<rparr>)) \<and>
   (length p_mass = m_ns w \<and> length p_energy = m_nT w \<longrightarrow>
      setWallState p_mass p_energy 1 w =
        (None, w\<lparr>mv_rhoi := p_mass, mv_T := p_energy, m_is_wall_state_set := True\<rparr>)) \<and>
   mv_surf_props_state (snd (setWallState p_mass p_energy state_var w)) = mv_surf_props_state w"
proof (intro conjI impI)
  show "setWallState (p # ps) p_energy 0 w =
          (None, w\<lparr>m_p := p, mv_T := p_energy, m_is_wall_state_set := True\<rparr>)"
    if "length p_energy = m_nT w"
    using that by (simp add: setWallState_def setWallP_def setWallT_def)
  show "setWallState p_mass p_energy 1 w =
          (None, w\<lparr>mv_rhoi := p_mass, mv_T := p_energy, m_is_wall_state_set := True\<rparr>)"
    if "length p_mass = m_ns w \<and> length p_energy = m_nT w"
    using that by (simp add: setWallState_def setWallRhoi_def setWallT_def)
  show "mv_surf_props_state (snd (setWallState p_mass p_energy state_var w)) = mv_surf_props_state w"
    by (simp add: setWallState_def setWallRhoi_def setWallT_def setWallP_def and_then_def
          split: list.splits)
qed

theorem setWallState_frame_witness:
  "length [300 :: real] = m_nT ex_wall \<and>
   setWallState [101325] [300] 0 ex_wall =
     (None, ex_wall\<lparr>m_p := 101325, mv_T := [300], m_is_wall_state_set := True\<rparr>) \<and>
   length [1, 2 :: real] = m_ns ex_wall \<and>
   setWallState [1, 2] [300] 1 ex_wall =
     (None, ex_wall\<lparr>mv_rhoi := [1, 2], mv_T := [300], m_is_wall_state_set := True\<rparr>) \<and>
   mv_surf_props_state (snd (setWallState [1, 2] [300] 1 ex_wall)) = mv_surf_props_state ex_wall"
proof -
  have ns: "length [1, 2 :: real] = m_ns ex_wall" and nT: "length [300 :: real] = m_nT ex_wall"
    by (simp_all add: ex_wall_eq)
  from setWallState_frame [of "[300]" ex_wall 101325 "[]" "[1, 2]" 1] ns nT
  show ?thesis by blast
qed

subsection \<open>The flag\<close>

text \<open>
  C8: \<open>m_is_wall_state_set\<close> is false after construction; it is true after every
  \<open>setWallState\<close> that returns normally; no call of a public method makes a true flag
  false; hence after any sequence of calls that contains a \<open>setWallState\<close> that returned
  normally, whatever was called before and after it, the flag is true.
\<close>

theorem is_wall_state_set_flag:
  "\<not> m_is_wall_state_set (snd (WallState th sp mem)) \<and>
   (fst (setWallState p_mass p_energy state_var w) = None \<longrightarrow>
      m_is_wall_state_set (snd (setWallState p_mass p_energy state_var w))) \<and>
   (m_is_wall_state_set w \<longrightarrow> m_is_wall_state_set (snd (exec x w))) \<and>
   (fst (setWallState p_mass p_energy state_var (run xs w)) = None \<longrightarrow>
      m_is_wall_state_set (run (xs @ SetWallState p_mass p_energy state_var # ys) w))"
proof (intro conjI impI)
  show "\<not> m_is_wall_state_set (snd (WallState th sp mem))"
    using WallState_snd [of th sp mem] by auto
  show "m_is_wall_state_set (snd (setWallState p_mass p_energy state_var w))"
    if "fst (setWallState p_mass p_energy state_var w) = None"
    using that setWallState_fields [OF prod.collapse [symmetric], of p_mass p_energy state_var w]
    by simp
  show "m_is_wall_state_set (snd (exec x w))" if "m_is_wall_state_set w"
    using that by (rule exec_keeps_flag)
  show "m_is_wall_state_set (run (xs @ SetWallState p_mass p_energy state_var # ys) w)"
    if ok: "fst (setWallState p_mass p_energy state_var (run xs w)) = None"
  proof -
    have "m_is_wall_state_set (snd (setWallState p_mass p_energy state_var (run xs w)))"
      using ok setWallState_fields [OF prod.collapse [symmetric], of p_mass p_energy state_var "run xs w"]
      by simp
    then show ?thesis
      by (simp add: run_append run_keeps_flag)
  qed
qed

theorem is_wall_state_set_flag_witness:
  "\<not> m_is_wall_state_set (snd (WallState ex_thermo ex_surf_props ex_storage)) \<and>
   fst (setWallState [1, 2] [300] 1 ex_wall) = None \<and>
   m_is_wall_state_set (snd (setWallState [1, 2] [300] 1 ex_wall)) \<and>
   m_is_wall_state_set ex_wall_rhoi \<and>
   m_is_wall_state_set (snd (exec (SetWallState [0] [0] 7) ex_wall_rhoi)) \<and>
   fst (setWallState [1, 2] [300] 1 (run [SetWallP 3] ex_wall)) = None \<and>
   m_is_wall_state_set
     (run ([SetWallP 3] @ SetWallState [1, 2] [300] 1
             # [SetWallState [0] [0] 7, SetWallRhoi [4, 5], GetWallState [] [] 0]) ex_wall)"
proof -
  have a: "fst (setWallState [1, 2] [300] 1 ex_wall) = None"
    by (simp add: ex_wall_eq setWallState_def setWallRhoi_def setWallT_def)
  have b: "m_is_wall_state_set ex_wall_rhoi"
    by (simp add: ex_wall_rhoi_eq)
  have c: "fst (setWallState [1, 2] [300] 1 (run [SetWallP 3] ex_wall)) = None"
    by (simp add: ex_wall_eq setWallState_def setWallRhoi_def setWallT_def setWallP_def)
  have d: "ex_wall = run [] ex_wall"
    by simp
  note t1 = is_wall_state_set_flag [where th = ex_thermo and sp = ex_surf_props
      and mem = ex_storage and p_mass = "[1, 2]" and p_energy = "[300]" and state_var = 1
      and w = ex_wall and x = "SetWallP 3" and xs = "[SetWallP 3]"
      and ys = "[SetWallState [0] [0] 7, SetWallRhoi [4, 5], GetWallState [] [] 0]"]
  note t2 = is_wall_state_set_flag [where th = ex_thermo and sp = ex_surf_props
      and mem = ex_storage and p_mass = "[1, 2]" and p_energy = "[300]" and state_var = 1
      and w = ex_wall_rhoi and x = "SetWallState [0] [0] 7" and xs = "[]" and ys = "[]"]
  show ?thesis
    using t1 t2 a b c by blast
qed

subsection \<open>The site densities\<close>

text \<open>
  C3: when every site category has a positive number of species and the species of all
  categories fit into the \<open>nWallSpecies\<close> slots, the constructor succeeds and the front of
  \<open>mv_surf_props_state\<close> is the list the specification describes: category after
  category in the provider's order, and for category \<open>c\<close> each of its \<open>m[c]\<close> slots,
  which start where the slots of the categories before it end, holds
  \<open>T_total * frac[c] / m[c]\<close>.
\<close>

theorem initializeSurfState_uniform:
  assumes "\<forall>c<nSiteCategories sp. 0 < nSpeciesinSite sp c"
    and "site_offset sp (nSiteCategories sp) \<le> nWallSpecies sp"
  shows "\<exists>w. WallState th sp mem = (None, w) \<and>
           take (site_offset sp (nSiteCategories sp)) (mv_surf_props_state w) = site_densities sp \<and>
           (\<forall>c<nSiteCategories sp. \<forall>j<nat (nSpeciesinSite sp c).
              mv_surf_props_state w ! (site_offset sp c + j)
                = nTotalSites sp * fracSite sp c / real_of_int (nSpeciesinSite sp c))"
proof -
  let ?v = "site_densities sp
            @ drop (site_offset sp (nSiteCategories sp)) (VectorXd (fresh_surf mem) (nWallSpecies sp))"
  have tk: "take (site_offset sp (nSiteCategories sp)) ?v = site_densities sp"
    by (simp add: length_site_densities)
  have nth: "?v ! (site_offset sp c + j)
               = nTotalSites sp * fracSite sp c / real_of_int (nSpeciesinSite sp c)"
    if "c < nSiteCategories sp" and "j < nat (nSpeciesinSite sp c)" for c j
    using site_offset_in_range [OF that] site_densities_nth [OF that]
    by (simp add: nth_append length_site_densities site_density_def)
  show ?thesis
    unfolding WallState_fills [OF assms(2)] using tk nth by simp
qed

theorem initializeSurfState_uniform_witness:
  "0 < nSpeciesinSite ex_surf_props 0 \<and> 0 < nSpeciesinSite ex_surf_props 1 \<and>
   site_offset ex_surf_props (nSiteCategories ex_surf_props) \<le> nWallSpecies ex_surf_props \<and>
   (\<exists>w. WallState ex_thermo ex_surf_props ex_storage = (None, w) \<and>
      take 3 (mv_surf_props_state w) = [2, 3, 3] \<and>
      mv_surf_props_state w ! 0 = 8 * (1 / 4) / 1 \<and>
      mv_surf_props_state w ! 1 = 8 * (3 / 4) / 2 \<and>
      mv_surf_props_state w ! 2 = 8 * (3 / 4) / 2)"
proof -
  have pos: "\<forall>c<nSiteCategories ex_surf_props. 0 < nSpeciesinSite ex_surf_props c"
    by (simp add: ex_surf_props_def)
  have fit: "site_offset ex_surf_props (nSiteCategories ex_surf_props) \<le> nWallSpecies ex_surf_props"
    by (simp add: ex_site_offset) (simp add: ex_surf_props_def)
  from initializeSurfState_uniform [OF pos fit, of ex_thermo ex_storage]
  obtain w where w: "WallState ex_thermo ex_surf_props ex_storage = (None, w)"
    and tk: "take (site_offset ex_surf_props (nSiteCategories ex_surf_props))
               (mv_surf_props_state w) = site_densities ex_surf_props"
    and nth: "\<And>c j. c < nSiteCategories ex_surf_props \<Longrightarrow> j < nat (nSpeciesinSite ex_surf_props c) \<Longrightarrow>
                mv_surf_props_state w ! (site_offset ex_surf_props c + j)
                  = nTotalSites ex_surf_props * fracSite ex_surf_props c
                      / real_of_int (nSpeciesinSite ex_surf_props c)"
    by blast
  have n0: "mv_surf_props_state w ! 0 = 8 * (1 / 4) / 1"
    using nth [of 0 0] by (simp add: ex_site_offset) (simp add: ex_surf_props_def)
  have n1: "mv_surf_props_state w ! 1 = 8 * (3 / 4) / 2"
    using nth [of 1 0] by (simp add: ex_site_offset) (simp add: ex_surf_props_def)
  have n2: "mv_surf_props_state w ! 2 = 8 * (3 / 4) / 2"
    using nth [of 1 1] by (simp add: ex_site_offset) (simp add: ex_surf_props_def numeral_2_eq_2)
  have t3: "take 3 (mv_surf_props_state w) = [2, 3, 3]"
    using tk by (simp add: ex_site_offset ex_site_densities)
  have p0: "0 < nSpeciesinSite ex_surf_props 0" and p1: "0 < nSpeciesinSite ex_surf_props 1"
    by (simp_all add: ex_surf_props_def)
  from p0 p1 fit w t3 n0 n1 n2 show ?thesis by blast
qed

text \<open>
  C4: when every site category has a positive number of species, the fractions of the
  categories sum to one and the species counts of the categories sum to \<open>nWallSpecies\<close>,
  the constructor succeeds and the entries of \<open>mv_surf_props_state\<close> sum to the total
  site density of the provider. The sum is one of real numbers; rounding of doubles is
  outside this model.
\<close>

theorem initializeSurfState_conserves:
  assumes "\<forall>c<nSiteCategories sp. 0 < nSpeciesinSite sp c"
    and "sum_list (map (fracSite sp) [0..<nSiteCategories sp]) = 1"
    and "site_offset sp (nSiteCategories sp) = nWallSpecies sp"
  shows "\<exists>w. WallState th sp mem = (None, w) \<and>
           sum_list (mv_surf_props_state w) = nTotalSites sp"
proof -
  have fit: "site_offset sp (nSiteCategories sp) \<le> nWallSpecies sp"
    using assms(3) by simp
  have "drop (site_offset sp (nSiteCategories sp)) (VectorXd (fresh_surf mem) (nWallSpecies sp)) = []"
    using assms(3) by (simp add: VectorXd_def)
  then show ?thesis
    unfolding WallState_fills [OF fit]
    using sum_list_site_densities [OF assms(1)] assms(2) by simp
qed

theorem initializeSurfState_conserves_witness:
  "0 < nSpeciesinSite ex_surf_props 0 \<and> 0 < nSpeciesinSite ex_surf_props 1 \<and>
   sum_list (map (fracSite ex_surf_props) [0..<nSiteCategories ex_surf_props]) = 1 \<and>
   site_offset ex_surf_props (nSiteCategories ex_surf_props) = nWallSpecies ex_surf_props \<and>
   (\<exists>w. WallState ex_thermo ex_surf_props ex_storage = (None, w) \<and>
      sum_list (mv_surf_props_state w) = 8)"
proof -
  have pos: "\<forall>c<nSiteCategories ex_surf_props. 0 < nSpeciesinSite ex_surf_props c"
    by (simp add: ex_surf_props_def)
  have frac: "sum_list (map (fracSite ex_surf_props) [0..<nSiteCategories ex_surf_props]) = 1"
    by (simp add: ex_surf_props_def upt_rec)
  have fit: "site_offset ex_surf_props (nSiteCategories ex_surf_props) = nWallSpecies ex_surf_props"
    by (simp add: ex_site_offset) (simp add: ex_surf_props_def)
  have p0: "0 < nSpeciesinSite ex_surf_props 0" and p1: "0 < nSpeciesinSite ex_surf_props 1"
    by (simp_all add: ex_surf_props_def)
  have T: "nTotalSites ex_surf_props = 8"
    by (simp add: ex_surf_props_def)
  from initializeSurfState_conserves [OF pos frac fit, of ex_thermo ex_storage] p0 p1 frac fit
  show ?thesis unfolding T by blast
qed

subsection \<open>The combined number densities\<close>

text \<open>
  C1: on a wall state whose \<open>mv_rhoi\<close> has length \<open>m_ns\<close> and whose
  \<open>mv_surf_props_state\<close> has length \<open>m_ns_surf\<close> (with \<open>m_ns\<close> the species count of
  the thermodynamics provider, as the constructor sets it), \<open>getNdStateGasSurf\<close> called
  with a buffer of length exactly \<open>m_ns + m_ns_surf\<close> returns normally; the first
  \<open>m_ns\<close> slots then hold the provider's concentrations for \<open>mv_rhoi\<close>, each multiplied
  by \<open>NA\<close>, and the last \<open>m_ns_surf\<close> slots hold \<open>mv_surf_props_state\<close> unchanged.
\<close>

theorem getNdStateGasSurf_output:
  assumes "length (mv_rhoi w) = m_ns w"
    and "length (mv_surf_props_state w) = m_ns_surf w"
    and "m_ns w = nSpecies (m_thermo w)"
    and "length v_wall_state = m_ns w + m_ns_surf w"
  shows "getNdStateGasSurf NA v_wall_state w =
           (None, map (\<lambda>i. rho_to_conc (m_thermo w) (mv_rhoi w) i * NA) [0..<m_ns w]
                    @ mv_surf_props_state w)"
  using assms by (simp add: getNdStateGasSurf_def convert_RHO_TO_CONC_def)

theorem getNdStateGasSurf_output_witness:
  "length (mv_rhoi ex_wall_rhoi) = m_ns ex_wall_rhoi \<and>
   length (mv_surf_props_state ex_wall_rhoi) = m_ns_surf ex_wall_rhoi \<and>
   m_ns ex_wall_rhoi = nSpecies (m_thermo ex_wall_rhoi) \<and>
   length [0, 0, 0, 0, 0 :: real] = m_ns ex_wall_rhoi + m_ns_surf ex_wall_rhoi \<and>
   getNdStateGasSurf 10 [0, 0, 0, 0, 0] ex_wall_rhoi = (None, [1 * 10, 2 * 10, 2, 3, 3])"
proof -
  have h: "length (mv_rhoi ex_wall_rhoi) = m_ns ex_wall_rhoi"
    "length (mv_surf_props_state ex_wall_rhoi) = m_ns_surf ex_wall_rhoi"
    "m_ns ex_wall_rhoi = nSpecies (m_thermo ex_wall_rhoi)"
    "length [0, 0, 0, 0, 0 :: real] = m_ns ex_wall_rhoi + m_ns_surf ex_wall_rhoi"
    by (simp_all add: ex_wall_rhoi_eq ex_thermo_def)
  have "getNdStateGasSurf 10 [0, 0, 0, 0, 0] ex_wall_rhoi = (None, [1 * 10, 2 * 10, 2, 3, 3])"
    unfolding getNdStateGasSurf_output [OF h, of 10]
    by (simp add: ex_wall_rhoi_eq ex_thermo_def upt_rec)
  with h show ?thesis by blast
qed

subsection \<open>The pressure does not reach the number densities\<close>

text \<open>
  C10: two wall states that satisfy the invariant of the data model, share the conversion
  of their thermodynamics provider and agree on \<open>mv_rhoi\<close> and on
  \<open>mv_surf_props_state\<close> give the same result of \<open>getNdStateGasSurf\<close> for the same
  buffer, whatever their pressures, temperatures and flags are. The witness compares a
  wall last set with variable set 1 to the same wall after a later call with variable
  set 0: their pressures differ, their outputs do not.
\<close>

theorem getNdStateGasSurf_ignores_pressure:
  assumes "wall_inv w1" and "wall_inv w2"
    and "rho_to_conc (m_thermo w1) = rho_to_conc (m_thermo w2)"
    and "mv_rhoi w1 = mv_rhoi w2"
    and "mv_surf_props_state w1 = mv_surf_props_state w2"
  shows "getNdStateGasSurf NA v_wall_state w1 = getNdStateGasSurf NA v_wall_state w2"
proof -
  have ns: "m_ns w1 = m_ns w2" and nsurf: "m_ns_surf w1 = m_ns_surf w2"
    and nsp: "nSpecies (m_thermo w1) = nSpecies (m_thermo w2)"
    using assms by (simp_all add: wall_inv_def)
  show ?thesis
    using assms(3-5) by (simp add: getNdStateGasSurf_def convert_RHO_TO_CONC_def ns nsurf nsp)
qed

theorem getNdStateGasSurf_ignores_pressure_witness:
  "wall_inv ex_wall_rhoi \<and> wall_inv ex_wall_p \<and>
   rho_to_conc (m_thermo ex_wall_rhoi) = rho_to_conc (m_thermo ex_wall_p) \<and>
   mv_rhoi ex_wall_rhoi = mv_rhoi ex_wall_p \<and>
   mv_surf_props_state ex_wall_rhoi = mv_surf_props_state ex_wall_p \<and>
   m_p ex_wall_rhoi \<noteq> m_p ex_wall_p \<and>
   getNdStateGasSurf 10 [0, 0, 0, 0, 0] ex_wall_rhoi = getNdStateGasSurf 10 [0, 0, 0, 0, 0] ex_wall_p"
proof -
  have h: "wall_inv ex_wall_rhoi" "wall_inv ex_wall_p"
    "rho_to_conc (m_thermo ex_wall_rhoi) = rho_to_conc (m_thermo ex_wall_p)"
    "mv_rhoi ex_wall_rhoi = mv_rhoi ex_wall_p"
    "mv_surf_props_state ex_wall_rhoi = mv_surf_props_state ex_wall_p"
    by (simp_all add: wall_inv_def ex_wall_rhoi_eq ex_wall_p_eq ex_thermo_def ex_surf_props_def)
  have p: "m_p ex_wall_rhoi \<noteq> m_p ex_wall_p"
    by (simp add: ex_wall_rhoi_eq ex_wall_p_eq)
  from getNdStateGasSurf_ignores_pressure [OF h, of 10 "[0, 0, 0, 0, 0]"] h p
  show ?thesis by blast
qed

end
